theory Spec2Isabelle
  imports Complex_Main
begin

section \<open>Basic types\<close>

text \<open>
  \<^verbatim>\<open>decimal.Decimal\<close> (shopspring) is an arbitrary-precision decimal; the operations the
  code uses (\<^verbatim>\<open>Mul\<close>, \<^verbatim>\<open>Neg\<close>, \<^verbatim>\<open>GreaterThan\<close>, \<^verbatim>\<open>LessThan\<close>) are exact, so a
  decimal is a rational number here. The zero value of the Go struct is the number 0.
  \<^verbatim>\<open>time.Time\<close> is a number of milliseconds.
\<close>

type_synonym Decimal = rat
type_synonym Time = int

text \<open>
  \<^verbatim>\<open>common.OrderDir\<close> is an integer type of package \<^verbatim>\<open>common\<close> with the named constants
  \<^verbatim>\<open>OrderDir_Buy\<close> and \<^verbatim>\<open>OrderDir_Sell\<close>. The code tests a direction with
  \<^verbatim>\<open>if ... else if ...\<close>, so a value that is neither of the two is possible;
  \<open>OrderDir_Other\<close> stands for every such value.
\<close>

datatype OrderDir = OrderDir_Buy | OrderDir_Sell | OrderDir_Other

section \<open>Markets (okexv5/spot\_market.go, okexv5/future\_market.go)\<close>

text \<open>
  \<^verbatim>\<open>CommonMarket\<close> is embedded by both market structs; of its fields the sources under
  verification read \<^verbatim>\<open>instId\<close>, \<^verbatim>\<open>latestPrice\<close> and the depth freshness flag \<^verbatim>\<open>depthOK\<close>.
\<close>

record CommonMarket =
  instId :: string
  latestPrice :: Decimal
  depthOK :: bool

record SpotMarket = CommonMarket +
  baseCcy :: string
  quoteCcy :: string

record FutureMarket = CommonMarket +
  markprice :: Decimal
  maxBuyPrice :: Decimal
  minSellPrice :: Decimal
  fundingRate :: Decimal
  nextFundingRate :: Decimal
  fundingTime :: Time
  nextFundingTime :: Time
  markpriceOK :: bool
  priceLimitOK :: bool
  fundingFeeOK :: bool

definition SpotMarket_Ready :: "SpotMarket \<Rightarrow> bool" where
  "SpotMarket_Ready m = depthOK m"

definition SpotMarket_UnreadyReason :: "SpotMarket \<Rightarrow> string" where
  "SpotMarket_UnreadyReason m = (if \<not> depthOK m then ''depth not ready'' else '''')"

definition SpotMarket_BaseCurrency :: "SpotMarket \<Rightarrow> string" where
  "SpotMarket_BaseCurrency m = baseCcy m"

definition SpotMarket_QuoteCurrency :: "SpotMarket \<Rightarrow> string" where
  "SpotMarket_QuoteCurrency m = quoteCcy m"

text \<open>
  \<^verbatim>\<open>FutureMarket.Init\<close> clears the three derivative flags; the stored limits keep the value
  the struct has, which is the zero decimal for a market that was just allocated.
  (\<^verbatim>\<open>CommonMarket.Init\<close> and the subscriptions are the feed layer and are not modelled;
  the feed callbacks below are what they run.)
\<close>

definition FutureMarket_Init :: "FutureMarket \<Rightarrow> FutureMarket" where
  "FutureMarket_Init m = m\<lparr>markpriceOK := False, priceLimitOK := False, fundingFeeOK := False\<rparr>"

text \<open>
  The price-limit feed: the websocket callback and the REST fallback both run
  \<^verbatim>\<open>onPriceLimitResp\<close> and then set \<^verbatim>\<open>priceLimitOK\<close>; the resubscription timeout clears the
  flag and leaves the stored limits as they are. The two limits arrive as decimals already
  parsed (\<^verbatim>\<open>util.String2DecimalPanic\<close> is the wire-format layer).
\<close>

definition onPriceLimitResp :: "Decimal \<Rightarrow> Decimal \<Rightarrow> FutureMarket \<Rightarrow> FutureMarket" where
  "onPriceLimitResp sellLimit buyLimit m = m\<lparr>minSellPrice := sellLimit, maxBuyPrice := buyLimit\<rparr>"

definition priceLimit_callback :: "Decimal \<Rightarrow> Decimal \<Rightarrow> FutureMarket \<Rightarrow> FutureMarket" where
  "priceLimit_callback sellLimit buyLimit m = (onPriceLimitResp sellLimit buyLimit m)\<lparr>priceLimitOK := True\<rparr>"

definition priceLimit_timeout :: "FutureMarket \<Rightarrow> FutureMarket" where
  "priceLimit_timeout m = m\<lparr>priceLimitOK := False\<rparr>"

definition FutureMarket_Ready :: "FutureMarket \<Rightarrow> bool" where
  "FutureMarket_Ready m = (depthOK m \<and> fundingFeeOK m \<and> markpriceOK m \<and> priceLimitOK m)"

text \<open>
  \<^verbatim>\<open>FutureMarket.AlignPrice\<close>. The base alignment \<^verbatim>\<open>CommonMarket.AlignPrice\<close> is not part of
  the sources at hand; it is the parameter \<open>base\<close>, a function of the price, the direction
  and the make-only flag.
\<close>

definition FutureMarket_AlignPrice ::
  "(Decimal \<Rightarrow> OrderDir \<Rightarrow> bool \<Rightarrow> Decimal) \<Rightarrow> FutureMarket \<Rightarrow> Decimal \<Rightarrow> OrderDir \<Rightarrow> bool \<Rightarrow> Decimal" where
  "FutureMarket_AlignPrice base m price dir makeOnly =
     (let aligned = base price dir makeOnly in
      if dir = OrderDir_Buy \<and> aligned > maxBuyPrice m then maxBuyPrice m
      else if dir = OrderDir_Sell \<and> aligned < minSellPrice m then minSellPrice m
      else aligned)"

text \<open>A base alignment for prices that already lie on the tick grid: it returns the price.\<close>

definition on_grid :: "Decimal \<Rightarrow> OrderDir \<Rightarrow> bool \<Rightarrow> Decimal" where
  "on_grid price dir makeOnly = price"

text \<open>A derivative market as \<^verbatim>\<open>Init\<close> leaves a newly allocated struct: no limit received yet.\<close>

definition fresh_future :: FutureMarket where
  "fresh_future = FutureMarket_Init
     \<lparr>instId = ''BTC-USDT-SWAP'', latestPrice = 0, depthOK = False,
      markprice = 0, maxBuyPrice = 0, minSellPrice = 0, fundingRate = 0, nextFundingRate = 0,
      fundingTime = 0, nextFundingTime = 0,
      markpriceOK = False, priceLimitOK = False, fundingFeeOK = False\<rparr>"

section \<open>Balances (common.BalanceImpl)\<close>

text \<open>
  Modelled from the spec: \<^verbatim>\<open>common.BalanceImpl\<close> is not among the sources at hand. The spec
  gives a balance a currency code, an available amount, a readiness flag, and temporary
  rights adjustments that each carry the timestamp of their fill.
\<close>

record BalanceImpl =
  ccy :: string
  available :: Decimal
  tempRights :: "(Time \<times> Decimal) list"
  ready :: bool
  notReadyReason :: string

text \<open>Modelled from the spec: \<^verbatim>\<open>BalanceImpl.Ccy\<close> (not among the sources at hand) returns the
  currency code of the balance.\<close>

definition BalanceImpl_Ccy :: "BalanceImpl \<Rightarrow> string" where
  "BalanceImpl_Ccy b = ccy b"

text \<open>Modelled from the spec: \<^verbatim>\<open>BalanceImpl.Available\<close> (not among the sources at hand) returns
  the available amount.\<close>

definition BalanceImpl_Available :: "BalanceImpl \<Rightarrow> Decimal" where
  "BalanceImpl_Available b = available b"

text \<open>Modelled from the spec: \<^verbatim>\<open>BalanceImpl.Rights\<close> (not among the sources at hand) is the
  available amount plus the sum of the outstanding temporary adjustments.\<close>

definition BalanceImpl_Rights :: "BalanceImpl \<Rightarrow> Decimal" where
  "BalanceImpl_Rights b = available b + sum_list (map snd (tempRights b))"

text \<open>Modelled from the spec: \<^verbatim>\<open>BalanceImpl.Ready\<close> (not among the sources at hand) returns the
  readiness flag, and a descriptive reason when the balance is not ready.\<close>

definition BalanceImpl_Ready :: "BalanceImpl \<Rightarrow> bool \<times> string" where
  "BalanceImpl_Ready b = (if ready b then (True, '''') else (False, notReadyReason b))"

text \<open>Modelled from the spec: \<^verbatim>\<open>BalanceImpl.RecordTempRights\<close> (not among the sources at hand)
  records a provisional adjustment of the rights under the time of its fill, with
  immediate effect.\<close>

definition RecordTempRights :: "Decimal \<Rightarrow> Time \<Rightarrow> BalanceImpl \<Rightarrow> BalanceImpl" where
  "RecordTempRights delta tm b = b\<lparr>tempRights := tempRights b @ [(tm, delta)]\<rparr>"

section \<open>Orders\<close>

text \<open>
  An order notifies its observers of each deal. The trader that made the order is one
  observer (\<^verbatim>\<open>o.AddObserver(t)\<close>); every other implementation of
  \<^verbatim>\<open>common.OrderObserver\<close> is an external one, told apart by a number.
\<close>

datatype OrderObserver = Obs_SpotTrader | Obs_External nat

text \<open>
  Modelled from the spec: the order structs \<^verbatim>\<open>CommonOrder\<close> (okexv5) and \<^verbatim>\<open>SpotOrder\<close>
  (binance) are not among the sources at hand. The fields are the attributes the spec lists
  for an order, under the names the sources use where they read them (\<^verbatim>\<open>CltOrderId\<close>,
  \<^verbatim>\<open>Dir\<close>, \<^verbatim>\<open>Size\<close>, \<^verbatim>\<open>ReduceOnly\<close>, \<^verbatim>\<open>Purpose\<close>, \<^verbatim>\<open>Finished\<close>); the observers are an
  ordered list.
\<close>

record CommonOrder =
  CltOrderId :: string
  Px :: Decimal
  Size :: Decimal
  Dir :: OrderDir
  MakeOnly :: bool
  ReduceOnly :: bool
  Purpose :: string
  Finished :: bool
  observers :: "OrderObserver list"

type_synonym SpotOrder = CommonOrder

text \<open>The zero value that \<^verbatim>\<open>new(SpotOrder)\<close> allocates.\<close>

definition new_SpotOrder :: SpotOrder where
  "new_SpotOrder = \<lparr>CltOrderId = '''', Px = 0, Size = 0, Dir = OrderDir_Other, MakeOnly = False,
     ReduceOnly = False, Purpose = '''', Finished = False, observers = []\<rparr>"

text \<open>Modelled from the spec: \<^verbatim>\<open>GetDir\<close> (not among the sources at hand) returns the direction
  of the order.\<close>

definition GetDir :: "'a CommonOrder_scheme \<Rightarrow> OrderDir" where
  "GetDir ord = Dir ord"

text \<open>
  Modelled from the spec: \<^verbatim>\<open>CommonOrder.Init\<close> is not among the sources at hand. It validates
  its inputs (a non-zero amount, a price within the venue's range \<open>(lo, hi)\<close>), stores the
  attributes of the order, and returns whether the validation passed.
\<close>

definition CommonOrder_Init ::
  "Decimal \<times> Decimal \<Rightarrow> Decimal \<Rightarrow> Decimal \<Rightarrow> OrderDir \<Rightarrow> bool \<Rightarrow> bool \<Rightarrow> string
     \<Rightarrow> 'a CommonOrder_scheme \<Rightarrow> bool \<times> 'a CommonOrder_scheme" where
  "CommonOrder_Init rng price amount dir makeOnly reduceOnly purpose ord =
     (if amount \<noteq> 0 \<and> fst rng \<le> price \<and> price \<le> snd rng
      then (True, ord\<lparr>Px := price, Size := amount, Dir := dir, MakeOnly := makeOnly,
                      ReduceOnly := reduceOnly, Purpose := purpose\<rparr>)
      else (False, ord))"

text \<open>
  Modelled from the spec: \<^verbatim>\<open>AddObserver\<close> is not among the sources at hand. Observers are
  kept in the order of their registration.
\<close>

definition AddObserver :: "OrderObserver \<Rightarrow> 'a CommonOrder_scheme \<Rightarrow> 'a CommonOrder_scheme" where
  "AddObserver ob ord = ord\<lparr>observers := observers ord @ [ob]\<rparr>"

text \<open>
  A deal (\<^verbatim>\<open>common.Deal\<close>): the order it belongs to (the field \<^verbatim>\<open>O\<close>, here \<open>DealO\<close>),
  the filled amount, the fill price and
  the fill time.
\<close>

record Deal =
  DealO :: CommonOrder
  Amount :: Decimal
  Price :: Decimal
  UTime :: Time

section \<open>Contract orders (okexv5/contract\_order.go)\<close>

datatype PositionMode = PositonMode_LS | PositonMode_Net

text \<open>
  Of the future trader an order reads the position mode of the exchange configuration
  and the long and short position sizes.
\<close>

record FutureTrader =
  excfg_PositionMode :: PositionMode
  pos_Long :: Decimal
  pos_Short :: Decimal

record ContractOrder = CommonOrder +
  trader :: FutureTrader

text \<open>
  \<^verbatim>\<open>ContractOrder.Init\<close>. The id generator \<^verbatim>\<open>NewClientOrderId\<close> is the parameter \<open>newId\<close>;
  it is called with the purpose the order has before \<^verbatim>\<open>CommonOrder.Init\<close> stores the new
  one. The venue's price range is the parameter \<open>rng\<close>.
\<close>

definition ContractOrder_Init ::
  "(string \<Rightarrow> string) \<Rightarrow> Decimal \<times> Decimal \<Rightarrow> FutureTrader \<Rightarrow> Decimal \<Rightarrow> Decimal \<Rightarrow> OrderDir
     \<Rightarrow> bool \<Rightarrow> bool \<Rightarrow> string \<Rightarrow> ContractOrder \<Rightarrow> bool \<times> ContractOrder" where
  "ContractOrder_Init newId rng tr price amount dir makeOnly reduceOnly purpose ord =
     (let ord1 = ord\<lparr>trader := tr\<rparr>;
          ord2 = ord1\<lparr>CltOrderId := newId (Purpose ord1)\<rparr>
      in CommonOrder_Init rng price amount dir makeOnly reduceOnly purpose ord2)"

definition ContractOrder_getPosSide :: "ContractOrder \<Rightarrow> string" where
  "ContractOrder_getPosSide ord =
     (if excfg_PositionMode (trader ord) = PositonMode_LS then
        (if Dir ord = OrderDir_Buy then
           (if pos_Short (trader ord) \<ge> Size ord \<or> ReduceOnly ord then ''short'' else ''long'')
         else
           (if pos_Long (trader ord) \<ge> Size ord \<or> ReduceOnly ord then ''long'' else ''short''))
      else '''')"

section \<open>The spot trader (binance/spot\_trader.go)\<close>

text \<open>
  What the trader reads and writes outside its own struct:
  \<^item> \<open>exchangeReady\<close>, the package-level connectivity flag;
  \<^item> \<open>balances\<close>, the balance objects of the exchange's balance manager, one for every
    currency it is asked for; a \<^verbatim>\<open>*common.BalanceImpl\<close> is the currency whose object it
    points to, so two pointers are equal exactly when they name the same currency;
  \<^item> \<open>submitted\<close>, the orders handed to the exchange by \<^verbatim>\<open>Go\<close>, in order;
  \<^item> \<open>calls\<close>, every \<^verbatim>\<open>OnDeal\<close> call made on an observer, in order;
  \<^item> \<open>slept\<close>, the seconds the caller of \<^verbatim>\<open>MakeOrder\<close> has been put to sleep.
  Log lines are not kept.
\<close>

type_synonym balance_ref = string

record World =
  exchangeReady :: bool
  balances :: "balance_ref \<Rightarrow> BalanceImpl"
  submitted :: "SpotOrder list"
  calls :: "(OrderObserver \<times> Deal) list"
  slept :: nat

text \<open>
  The trader struct. Modelled from the spec: the binance \<^verbatim>\<open>SpotMarket\<close> is not among the
  sources at hand; the spec has one design of a spot market for every venue (ready on the
  depth feed alone), which is the spot market of the section above. The \<^verbatim>\<open>exchange\<close>
  pointer and the log prefix are left out: the trader only passes them on to the exchange
  and the logger.
\<close>

record SpotTrader =
  market :: SpotMarket
  stratergyId :: int
  baseBalance :: balance_ref
  quoteBalance :: balance_ref
  orders :: "string \<rightharpoonup> SpotOrder"
  errorlock :: bool
  finished :: bool

text \<open>
  The snapshot the exchange delivers: the two fields the trader reads, and the rest of the
  normalized shape of the spec for the order's own state machine.
\<close>

record OrderSnapshot =
  ClientOrderID :: string
  StratergyId :: int
  ExchangeOrderID :: string
  Status :: string
  CumulativeFilled :: Decimal
  AvgPrice :: Decimal
  LastUpdateTime :: Time

datatype panic = Panic string

text \<open>
  Modelled from the spec: \<^verbatim>\<open>logger.LogPanic\<close> is not among the sources at hand. The spec keeps
  logging outside the core and has a consistency violation set the halt-trading flag
  "rather than a raised exception": the call writes its line and returns, which is the
  result \<open>None\<close>.
\<close>

definition LogPanic :: "string \<Rightarrow> panic option" where
  "LogPanic msg = None"

subsection \<open>Init and Uninit\<close>

text \<open>
  \<^verbatim>\<open>Init\<close> stores the market and the strategy id, empties the order map, clears \<open>finished\<close>
  and looks the two balances up by the market's currencies. It does not write \<open>errorlock\<close>.
  The callback it registers is \<open>onOrderSnapshot\<close> below, the loop it starts is \<open>sweep\<close>.
\<close>

definition SpotTrader_Init :: "int \<Rightarrow> SpotMarket \<Rightarrow> SpotTrader \<Rightarrow> SpotTrader" where
  "SpotTrader_Init sid m t =
     t\<lparr>market := m, stratergyId := sid, orders := Map.empty, finished := False,
       baseBalance := SpotMarket_BaseCurrency m, quoteBalance := SpotMarket_QuoteCurrency m\<rparr>"

definition SpotTrader_Uninit :: "SpotTrader \<Rightarrow> SpotTrader" where
  "SpotTrader_Uninit t = t\<lparr>finished := True\<rparr>"

subsection \<open>OnDeal\<close>

definition upd_balance :: "balance_ref \<Rightarrow> (BalanceImpl \<Rightarrow> BalanceImpl) \<Rightarrow> World \<Rightarrow> World" where
  "upd_balance r f w = w\<lparr>balances := (balances w)(r := f (balances w r))\<rparr>"

definition SpotTrader_OnDeal :: "SpotTrader \<Rightarrow> Deal \<Rightarrow> World \<Rightarrow> World" where
  "SpotTrader_OnDeal t deal w =
     (if GetDir (DealO deal) = OrderDir_Buy then
        (let w1 = upd_balance (baseBalance t) (RecordTempRights (Amount deal) (UTime deal)) w
         in upd_balance (quoteBalance t) (RecordTempRights (- (Amount deal * Price deal)) (UTime deal)) w1)
      else if GetDir (DealO deal) = OrderDir_Sell then
        (let w1 = upd_balance (baseBalance t) (RecordTempRights (- Amount deal) (UTime deal)) w
         in upd_balance (quoteBalance t) (RecordTempRights (Amount deal * Price deal) (UTime deal)) w1)
      else w)"

definition base_rights :: "SpotTrader \<Rightarrow> World \<Rightarrow> Decimal" where
  "base_rights t w = BalanceImpl_Rights (balances w (baseBalance t))"

definition quote_rights :: "SpotTrader \<Rightarrow> World \<Rightarrow> Decimal" where
  "quote_rights t w = BalanceImpl_Rights (balances w (quoteBalance t))"

subsection \<open>Ready and UnreadyReason\<close>

definition SpotTrader_Ready :: "World \<Rightarrow> SpotTrader \<Rightarrow> bool" where
  "SpotTrader_Ready w t =
     (let (baseBalOk, r1) = BalanceImpl_Ready (balances w (baseBalance t));
          (quoteBalOk, r2) = BalanceImpl_Ready (balances w (quoteBalance t))
      in SpotMarket_Ready (market t) \<and> baseBalOk \<and> quoteBalOk \<and> exchangeReady w \<and> \<not> errorlock t)"

definition SpotTrader_UnreadyReason :: "World \<Rightarrow> SpotTrader \<Rightarrow> string" where
  "SpotTrader_UnreadyReason w t =
     (if \<not> SpotMarket_Ready (market t) then SpotMarket_UnreadyReason (market t)
      else case BalanceImpl_Ready (balances w (baseBalance t)) of
        (False, reason) \<Rightarrow>
          ''base balance('' @ BalanceImpl_Ccy (balances w (baseBalance t)) @ '') not ready: '' @ reason
      | (True, r1) \<Rightarrow>
         (case BalanceImpl_Ready (balances w (quoteBalance t)) of
            (False, reason) \<Rightarrow>
              ''quote balance('' @ BalanceImpl_Ccy (balances w (quoteBalance t)) @ '') not ready: '' @ reason
          | (True, r2) \<Rightarrow>
              if \<not> exchangeReady w then ''exchange not ready'' else ''''))"

definition MaxInt32 :: int where
  "MaxInt32 = 2147483647"

definition SpotTrader_BuyPriceRange :: "SpotTrader \<Rightarrow> Decimal \<times> Decimal" where
  "SpotTrader_BuyPriceRange t = (0, of_int MaxInt32)"

definition SpotTrader_SellPriceRange :: "SpotTrader \<Rightarrow> Decimal \<times> Decimal" where
  "SpotTrader_SellPriceRange t = (0, of_int MaxInt32)"

subsection \<open>The order operations MakeOrder calls\<close>

text \<open>
  Modelled from the spec: \<^verbatim>\<open>SpotOrder.Init\<close> is not among the sources at hand. It assigns the
  fresh client order id \<open>cid\<close> (what the id generator returns for this call) and validates
  and stores the attributes as an order's \<open>Init\<close> does, within the trader's price range
  for the direction. Its signature has no reduce-only flag.
\<close>

definition SpotOrder_Init ::
  "string \<Rightarrow> SpotTrader \<Rightarrow> Decimal \<Rightarrow> Decimal \<Rightarrow> OrderDir \<Rightarrow> bool \<Rightarrow> string \<Rightarrow> SpotOrder
     \<Rightarrow> bool \<times> SpotOrder" where
  "SpotOrder_Init cid t price amount dir makeOnly purpose ord =
     CommonOrder_Init
       (if dir = OrderDir_Buy then SpotTrader_BuyPriceRange t else SpotTrader_SellPriceRange t)
       price amount dir makeOnly False purpose (ord\<lparr>CltOrderId := cid\<rparr>)"

text \<open>
  Modelled from the spec: \<^verbatim>\<open>SpotOrder.Go\<close> is not among the sources at hand. It hands the order
  to the exchange adapter and returns without waiting for the acknowledgment.
\<close>

definition SpotOrder_Go :: "SpotOrder \<Rightarrow> World \<Rightarrow> World" where
  "SpotOrder_Go ord w = w\<lparr>submitted := submitted w @ [ord]\<rparr>"

text \<open>
  Modelled from the spec: the fan-out of a deal is not among the sources at hand. A deal is
  delivered to the observers of its order one after the other, in the order of their
  registration. The trader's callback is \<open>SpotTrader_OnDeal\<close>; an external observer is
  strategy code, of which only the call is recorded.
\<close>

definition deliver :: "OrderObserver \<Rightarrow> Deal \<Rightarrow> SpotTrader \<Rightarrow> World \<Rightarrow> World" where
  "deliver ob deal t w =
     (let w1 = w\<lparr>calls := calls w @ [(ob, deal)]\<rparr>
      in case ob of Obs_SpotTrader \<Rightarrow> SpotTrader_OnDeal t deal w1 | Obs_External k \<Rightarrow> w1)"

text \<open>Modelled from the spec: one deal goes to every observer, first registered first.\<close>

fun notify :: "OrderObserver list \<Rightarrow> Deal \<Rightarrow> SpotTrader \<Rightarrow> World \<Rightarrow> World" where
  "notify [] deal t w = w"
| "notify (ob # obs) deal t w = notify obs deal t (deliver ob deal t w)"

text \<open>Modelled from the spec: the new deals of a snapshot are notified one after the other.\<close>

fun notify_all :: "OrderObserver list \<Rightarrow> Deal list \<Rightarrow> SpotTrader \<Rightarrow> World \<Rightarrow> World" where
  "notify_all obs [] t w = w"
| "notify_all obs (deal # deals) t w = notify_all obs deals t (notify obs deal t w)"

subsection \<open>MakeOrder\<close>

text \<open>
  The result is the returned order (\<open>None\<close> for \<^verbatim>\<open>nil\<close>) and the state after the call. The
  map holds a pointer to the order, so the observers added after the insertion are also
  those of the order in the map.
\<close>

definition SpotTrader_MakeOrder ::
  "string \<Rightarrow> Decimal \<Rightarrow> Decimal \<Rightarrow> OrderDir \<Rightarrow> bool \<Rightarrow> bool \<Rightarrow> string \<Rightarrow> OrderObserver
     \<Rightarrow> World \<times> SpotTrader \<Rightarrow> SpotOrder option \<times> World \<times> SpotTrader" where
  "SpotTrader_MakeOrder cid price amount dir makeOnly reduceOnly purpose obs s =
     (case s of (w, t) \<Rightarrow>
        if SpotTrader_Ready w t then
          (case SpotOrder_Init cid t price amount dir makeOnly purpose new_SpotOrder of
             (True, ord) \<Rightarrow>
               (let t1 = t\<lparr>orders := (orders t)(CltOrderId ord \<mapsto> ord)\<rparr>;
                    ord1 = AddObserver Obs_SpotTrader ord;
                    ord2 = AddObserver obs ord1;
                    w1 = SpotOrder_Go ord2 w
                in (Some ord2, w1, t1\<lparr>orders := (orders t1)(CltOrderId ord \<mapsto> ord2)\<rparr>))
           | (False, ord) \<Rightarrow> (None, w, t))
        else (None, w\<lparr>slept := slept w + 1\<rparr>, t))"

subsection \<open>The snapshot callback registered by Init\<close>

text \<open>
  Modelled from the spec: the order's \<^verbatim>\<open>onSnapshot\<close> is not among the sources at hand. How a
  snapshot advances the order and which deals it adds is the parameter \<open>osnap\<close>; the
  order is updated in place and each new deal goes to the observers.
\<close>

definition SpotOrder_onSnapshot ::
  "(OrderSnapshot \<Rightarrow> SpotOrder \<Rightarrow> SpotOrder \<times> Deal list) \<Rightarrow> OrderSnapshot \<Rightarrow> SpotOrder
     \<Rightarrow> World \<times> SpotTrader \<Rightarrow> World \<times> SpotTrader" where
  "SpotOrder_onSnapshot osnap os ord s =
     (case s of (w, t) \<Rightarrow>
        (case osnap os ord of (ord', deals) \<Rightarrow>
           (let t' = t\<lparr>orders := (orders t)(ClientOrderID os \<mapsto> ord')\<rparr>
            in (notify_all (observers ord') deals t' w, t'))))"

definition onOrderSnapshot ::
  "(OrderSnapshot \<Rightarrow> SpotOrder \<Rightarrow> SpotOrder \<times> Deal list) \<Rightarrow> OrderSnapshot
     \<Rightarrow> World \<times> SpotTrader \<Rightarrow> panic + World \<times> SpotTrader" where
  "onOrderSnapshot osnap os s =
     (case s of (w, t) \<Rightarrow>
        (let foreign = (StratergyId os > 0 \<and> StratergyId os \<noteq> stratergyId t);
             t1 = (if foreign then t\<lparr>errorlock := True\<rparr> else t)
         in case (if foreign then LogPanic ''found order from other stratergy!'' else None) of
              Some p \<Rightarrow> Inl p
            | None \<Rightarrow>
               (case orders t1 (ClientOrderID os) of
                  Some ord \<Rightarrow> Inr (SpotOrder_onSnapshot osnap os ord (w, t1))
                | None \<Rightarrow> Inr (w, t1))))"

subsection \<open>The sweep of finished orders\<close>

text \<open>
  One pass of the loop body, which runs with the write lock held. \<open>cids\<close> is the order in
  which \<^verbatim>\<open>range\<close> visits the keys of the map, which Go leaves open.
\<close>

fun sweep_loop :: "string list \<Rightarrow> (string \<rightharpoonup> SpotOrder) \<Rightarrow> (string \<rightharpoonup> SpotOrder)" where
  "sweep_loop [] m = m"
| "sweep_loop (cid # cids) m =
     (case m cid of
        Some ord \<Rightarrow> if Finished ord then sweep_loop cids (m(cid := None)) else sweep_loop cids m
      | None \<Rightarrow> sweep_loop cids m)"

definition sweep :: "string list \<Rightarrow> SpotTrader \<Rightarrow> SpotTrader" where
  "sweep cids t = t\<lparr>orders := sweep_loop cids (orders t)\<rparr>"

text \<open>The map without its finished orders.\<close>

definition unfinished :: "(string \<rightharpoonup> SpotOrder) \<Rightarrow> (string \<rightharpoonup> SpotOrder)" where
  "unfinished m = (\<lambda>cid. case m cid of Some ord \<Rightarrow> if Finished ord then None else Some ord | None \<Rightarrow> None)"

subsection \<open>Runs of the trader\<close>

text \<open>
  Everything that can happen to a trader after \<^verbatim>\<open>Init\<close>: its own operations, and the
  collaborators that change what it reads (the market's feed, the account snapshot of a
  balance, the connectivity flag).
\<close>

datatype Event =
    Ev_Snapshot OrderSnapshot
  | Ev_MakeOrder string Decimal Decimal OrderDir bool bool string OrderObserver
  | Ev_Sweep "string list"
  | Ev_OnDeal Deal
  | Ev_Init int SpotMarket
  | Ev_Uninit
  | Ev_Feed SpotMarket
  | Ev_Account balance_ref BalanceImpl
  | Ev_Connectivity bool

fun step ::
  "(OrderSnapshot \<Rightarrow> SpotOrder \<Rightarrow> SpotOrder \<times> Deal list) \<Rightarrow> Event \<Rightarrow> World \<times> SpotTrader
     \<Rightarrow> panic + World \<times> SpotTrader" where
  "step osnap (Ev_Snapshot os) s = onOrderSnapshot osnap os s"
| "step osnap (Ev_MakeOrder cid price amount dir makeOnly reduceOnly purpose obs) s =
     Inr (snd (SpotTrader_MakeOrder cid price amount dir makeOnly reduceOnly purpose obs s))"
| "step osnap (Ev_Sweep cids) (w, t) = Inr (w, sweep cids t)"
| "step osnap (Ev_OnDeal deal) (w, t) = Inr (SpotTrader_OnDeal t deal w, t)"
| "step osnap (Ev_Init sid m) (w, t) = Inr (w, SpotTrader_Init sid m t)"
| "step osnap Ev_Uninit (w, t) = Inr (w, SpotTrader_Uninit t)"
| "step osnap (Ev_Feed m) (w, t) = Inr (w, t\<lparr>market := m\<rparr>)"
| "step osnap (Ev_Account r b) (w, t) = Inr (w\<lparr>balances := (balances w)(r := b)\<rparr>, t)"
| "step osnap (Ev_Connectivity b) (w, t) = Inr (w\<lparr>exchangeReady := b\<rparr>, t)"

fun run ::
  "(OrderSnapshot \<Rightarrow> SpotOrder \<Rightarrow> SpotOrder \<times> Deal list) \<Rightarrow> Event list \<Rightarrow> World \<times> SpotTrader
     \<Rightarrow> panic + World \<times> SpotTrader" where
  "run osnap [] s = Inr s"
| "run osnap (ev # evs) s = (case step osnap ev s of Inl p \<Rightarrow> Inl p | Inr s' \<Rightarrow> run osnap evs s')"

section \<open>Example states\<close>

text \<open>
  A BTC/USDT spot market with a fresh order book, an account whose balances have been
  confirmed, and a trader of strategy 7 as \<^verbatim>\<open>Init\<close> leaves a newly allocated struct.
\<close>

definition btc_usdt :: SpotMarket where
  "btc_usdt = \<lparr>instId = ''BTCUSDT'', latestPrice = 50000, depthOK = True,
     baseCcy = ''BTC'', quoteCcy = ''USDT''\<rparr>"

definition funded :: "string \<Rightarrow> BalanceImpl" where
  "funded c = \<lparr>ccy = c, available = 1000000, tempRights = [], ready = True, notReadyReason = ''''\<rparr>"

definition world0 :: World where
  "world0 = \<lparr>exchangeReady = True, balances = funded, submitted = [], calls = [], slept = 0\<rparr>"

definition trader0 :: SpotTrader where
  "trader0 = SpotTrader_Init 7 btc_usdt
     \<lparr>market = btc_usdt, stratergyId = 0, baseBalance = '''', quoteBalance = '''',
      orders = Map.empty, errorlock = False, finished = False\<rparr>"

text \<open>The same world with the exchange connection down, and the same trader locked.\<close>

definition offline :: World where
  "offline = world0\<lparr>exchangeReady := False\<rparr>"

definition locked :: SpotTrader where
  "locked = trader0\<lparr>errorlock := True\<rparr>"

text \<open>A buy of 2 at 50000, a trader holding a finished and a live order, and a snapshot
  that carries the id of strategy 9.\<close>

definition buy_deal :: Deal where
  "buy_deal = \<lparr>DealO = new_SpotOrder\<lparr>CltOrderId := ''c1'', Px := 50000, Size := 2, Dir := OrderDir_Buy\<rparr>,
     Amount = 2, Price = 50000, UTime = 1700000000000\<rparr>"

definition two_orders :: SpotTrader where
  "two_orders = trader0\<lparr>orders :=
     [''a'' \<mapsto> new_SpotOrder\<lparr>CltOrderId := ''a'', Finished := True\<rparr>,
      ''b'' \<mapsto> new_SpotOrder\<lparr>CltOrderId := ''b''\<rparr>]\<rparr>"

definition foreign_os :: OrderSnapshot where
  "foreign_os = \<lparr>ClientOrderID = ''x1'', StratergyId = 9, ExchangeOrderID = ''99'', Status = ''FILLED'',
     CumulativeFilled = 1, AvgPrice = 50000, LastUpdateTime = 1700000000000\<rparr>"

text \<open>
  An order state machine for the examples: the snapshot's cumulative fill is one deal at
  the average price, and the order is finished.
\<close>

definition fill_once :: "OrderSnapshot \<Rightarrow> SpotOrder \<Rightarrow> SpotOrder \<times> Deal list" where
  "fill_once os ord =
     (ord\<lparr>Finished := True\<rparr>,
      [\<lparr>DealO = ord, Amount = CumulativeFilled os, Price = AvgPrice os, UTime = LastUpdateTime os\<rparr>])"

text \<open>A future trader in long/short position mode that holds no position.\<close>

definition ls_trader :: FutureTrader where
  "ls_trader = \<lparr>excfg_PositionMode = PositonMode_LS, pos_Long = 0, pos_Short = 0\<rparr>"

section \<open>Market properties\<close>

text \<open>
  Claim C1. For every combination of the four feed flags, \<open>Ready\<close> of a spot market is the
  depth flag alone, and \<open>Ready\<close> of a derivative market is the conjunction of the depth,
  mark-price, price-limit and funding flags.
\<close>

theorem Ready_AND_law:
  "SpotMarket_Ready (sm\<lparr>depthOK := d\<rparr>) = d
   \<and> FutureMarket_Ready (fm\<lparr>depthOK := d, markpriceOK := mp, priceLimitOK := pl, fundingFeeOK := ff\<rparr>)
       = (d \<and> mp \<and> pl \<and> ff)"
  by (auto simp: SpotMarket_Ready_def FutureMarket_Ready_def)

text \<open>
  Claim C5, as stated: where the limits are not known (the price-limit flag is clear) the
  aligned price would be left as the base alignment gives it. On a market that has received
  no limit, a buy at 100 is replaced by the zero limit.
\<close>

theorem AlignPrice_unknown_limits_counterexample:
  "\<not> priceLimitOK fresh_future
   \<and> on_grid 100 OrderDir_Buy False = 100
   \<and> FutureMarket_AlignPrice on_grid fresh_future 100 OrderDir_Buy False = 0"
  by (simp add: fresh_future_def FutureMarket_Init_def FutureMarket_AlignPrice_def on_grid_def)

text \<open>
  Claim C5, amended. \<open>AlignPrice\<close> applies the base alignment and then clamps against the
  stored limits, whatever the price-limit flag says: a buy above \<open>maxBuyPrice\<close> becomes
  \<open>maxBuyPrice\<close>, a sell below \<open>minSellPrice\<close> becomes \<open>minSellPrice\<close>, every other
  price is the base alignment; the flag has no influence on the result.
\<close>

theorem AlignPrice_clamps_stored_limits:
  "FutureMarket_AlignPrice base m price dir makeOnly =
     (case dir of
        OrderDir_Buy \<Rightarrow> min (base price dir makeOnly) (maxBuyPrice m)
      | OrderDir_Sell \<Rightarrow> max (base price dir makeOnly) (minSellPrice m)
      | OrderDir_Other \<Rightarrow> base price dir makeOnly)
   \<and> FutureMarket_AlignPrice base (m\<lparr>priceLimitOK := b\<rparr>) price dir makeOnly
       = FutureMarket_AlignPrice base m price dir makeOnly"
  by (cases dir) (auto simp: FutureMarket_AlignPrice_def Let_def min_def max_def)


section \<open>Trader readiness\<close>

lemmas fixtures = world0_def trader0_def SpotTrader_Init_def btc_usdt_def funded_def offline_def locked_def
  SpotMarket_BaseCurrency_def SpotMarket_QuoteCurrency_def

text \<open>
  Claim C8. In every state, \<open>Ready\<close> of the trader is true exactly when the market is
  ready, the base balance is ready, the quote balance is ready, the exchange connectivity
  flag is set and the error lock is not set.
\<close>

theorem Ready_iff:
  "SpotTrader_Ready w t =
     (SpotMarket_Ready (market t)
      \<and> fst (BalanceImpl_Ready (balances w (baseBalance t)))
      \<and> fst (BalanceImpl_Ready (balances w (quoteBalance t)))
      \<and> exchangeReady w \<and> \<not> errorlock t)"
  by (simp add: SpotTrader_Ready_def split: prod.splits)

text \<open>
  Claim C10. When the market, both balances and the connectivity flag are ready and the
  error lock is set, \<open>Ready\<close> is false and \<open>UnreadyReason\<close> is the empty string: the lock
  is not reported as a reason.
\<close>

theorem errorlock_not_reported:
  assumes "SpotMarket_Ready (market t)"
    and "fst (BalanceImpl_Ready (balances w (baseBalance t)))"
    and "fst (BalanceImpl_Ready (balances w (quoteBalance t)))"
    and "exchangeReady w" and "errorlock t"
  shows "\<not> SpotTrader_Ready w t \<and> SpotTrader_UnreadyReason w t = ''''"
  using assms
  by (auto simp: SpotTrader_Ready_def SpotTrader_UnreadyReason_def split: prod.splits bool.splits)

theorem errorlock_not_reported_witness:
  "SpotMarket_Ready (market locked)
   \<and> fst (BalanceImpl_Ready (balances world0 (baseBalance locked)))
   \<and> fst (BalanceImpl_Ready (balances world0 (quoteBalance locked)))
   \<and> exchangeReady world0 \<and> errorlock locked
   \<and> \<not> SpotTrader_Ready world0 locked \<and> SpotTrader_UnreadyReason world0 locked = ''''"
proof -
  have h: "SpotMarket_Ready (market locked)"
    "fst (BalanceImpl_Ready (balances world0 (baseBalance locked)))"
    "fst (BalanceImpl_Ready (balances world0 (quoteBalance locked)))"
    "exchangeReady world0" "errorlock locked"
    by (simp_all add: fixtures SpotMarket_Ready_def BalanceImpl_Ready_def)
  from errorlock_not_reported [OF h] h show ?thesis by simp
qed

section \<open>MakeOrder\<close>

text \<open>
  Claim C4. For every input, when the trader is not ready \<open>MakeOrder\<close> returns no order
  and, the one-second pause of the caller apart, leaves the state as it was: the order map
  is unchanged, and no order is built, registered or submitted.
\<close>

theorem MakeOrder_not_ready:
  assumes "\<not> SpotTrader_Ready w t"
  shows "SpotTrader_MakeOrder cid price amount dir makeOnly reduceOnly purpose obs (w, t)
           = (None, w\<lparr>slept := slept w + 1\<rparr>, t)"
  using assms by (simp add: SpotTrader_MakeOrder_def)

theorem MakeOrder_not_ready_witness:
  "\<not> SpotTrader_Ready offline trader0
   \<and> SpotTrader_MakeOrder ''c1'' 100 1 OrderDir_Buy False False ''quote'' (Obs_External 0) (offline, trader0)
       = (None, offline\<lparr>slept := 1\<rparr>, trader0)"
proof -
  have h: "\<not> SpotTrader_Ready offline trader0"
    by (simp add: fixtures SpotTrader_Ready_def split: prod.splits)
  have "slept offline = 0" by (simp add: fixtures)
  with MakeOrder_not_ready [OF h, of "''c1''" 100 1 OrderDir_Buy False False "''quote''" "Obs_External 0"] h
  show ?thesis by simp
qed

lemma calls_OnDeal: "calls (SpotTrader_OnDeal t deal w) = calls w"
  by (simp add: SpotTrader_OnDeal_def upd_balance_def Let_def)

lemma calls_deliver: "calls (deliver ob deal t w) = calls w @ [(ob, deal)]"
  by (cases ob) (simp_all add: deliver_def calls_OnDeal)

lemma MakeOrder_Some:
  assumes "SpotTrader_MakeOrder cid price amount dir makeOnly reduceOnly purpose obs (w, t) = (Some ord, w', t')"
  shows "SpotTrader_Ready w t \<and> observers ord = [Obs_SpotTrader, obs] \<and> CltOrderId ord = cid
     \<and> t' = t\<lparr>orders := (orders t)(cid \<mapsto> ord)\<rparr> \<and> w' = w\<lparr>submitted := submitted w @ [ord]\<rparr>"
  using assms
  by (auto simp: SpotTrader_MakeOrder_def SpotOrder_Init_def CommonOrder_Init_def new_SpotOrder_def
      AddObserver_def SpotOrder_Go_def Let_def split: if_splits)

text \<open>
  Claim C6. After every successful \<open>MakeOrder\<close> (which needs a ready trader) the new order,
  which is now in the map, has exactly two observers, the trader first and the caller's
  observer second; so each deal of the order reaches the trader's balance update before it
  reaches the caller's observer.
\<close>

theorem MakeOrder_observer_order:
  assumes "SpotTrader_MakeOrder cid price amount dir makeOnly reduceOnly purpose obs (w, t) = (Some ord, w', t')"
  shows "SpotTrader_Ready w t
     \<and> observers ord = [Obs_SpotTrader, obs]
     \<and> orders t' (CltOrderId ord) = Some ord
     \<and> notify (observers ord) deal t' w2 = deliver obs deal t' (deliver Obs_SpotTrader deal t' w2)
     \<and> calls (notify (observers ord) deal t' w2) = calls w2 @ [(Obs_SpotTrader, deal), (obs, deal)]"
  using MakeOrder_Some [OF assms] by (simp add: calls_deliver)

theorem MakeOrder_observer_order_witness:
  "\<exists>ord w' t'.
     SpotTrader_MakeOrder ''c1'' 100 1 OrderDir_Buy False False ''quote'' (Obs_External 1) (world0, trader0)
       = (Some ord, w', t')
     \<and> observers ord = [Obs_SpotTrader, Obs_External 1]
     \<and> orders t' ''c1'' = Some ord
     \<and> calls (notify (observers ord) buy_deal t' w') = [(Obs_SpotTrader, buy_deal), (Obs_External 1, buy_deal)]"
proof -
  have r: "SpotTrader_Ready world0 trader0"
    by (simp add: fixtures SpotTrader_Ready_def SpotMarket_Ready_def BalanceImpl_Ready_def)
  obtain ord w' t' where
    m: "SpotTrader_MakeOrder ''c1'' 100 1 OrderDir_Buy False False ''quote'' (Obs_External 1) (world0, trader0)
          = (Some ord, w', t')"
    using r
    by (simp add: SpotTrader_MakeOrder_def SpotOrder_Init_def CommonOrder_Init_def
        SpotTrader_BuyPriceRange_def MaxInt32_def Let_def)
  have c: "CltOrderId ord = ''c1''" "calls w' = []"
    using m r
    by (auto simp: SpotTrader_MakeOrder_def SpotOrder_Init_def CommonOrder_Init_def
        SpotTrader_BuyPriceRange_def MaxInt32_def Let_def AddObserver_def SpotOrder_Go_def
        new_SpotOrder_def world0_def)
  from MakeOrder_observer_order [OF m, of buy_deal w'] m c show ?thesis by (simp add: calls_deliver)
qed

text \<open>
  Claim C9. Two \<open>MakeOrder\<close> calls of the spot trader that differ only in the reduce-only
  argument give the same order and the same state after the call, submissions included.
  On the contract path the flag reaches the order and decides the position side: with no
  short position, a buy in long/short mode closes shorts when the flag is set and opens a
  long when it is not.
\<close>

theorem MakeOrder_ignores_reduceOnly:
  "SpotTrader_MakeOrder cid price amount dir makeOnly r1 purpose obs s
     = SpotTrader_MakeOrder cid price amount dir makeOnly r2 purpose obs s
   \<and> ContractOrder_getPosSide
       (snd (ContractOrder_Init newId (0, 1000) ls_trader 100 1 OrderDir_Buy mk r p cord))
     = (if r then ''short'' else ''long'')"
  by (simp add: SpotTrader_MakeOrder_def ContractOrder_Init_def CommonOrder_Init_def
      ContractOrder_getPosSide_def ls_trader_def Let_def)

section \<open>Balance reconciliation\<close>

lemma Rights_upd_same:
  "BalanceImpl_Rights (balances (upd_balance r (RecordTempRights d tm) w) r) = BalanceImpl_Rights (balances w r) + d"
  by (simp add: upd_balance_def RecordTempRights_def BalanceImpl_Rights_def)

lemma Rights_upd_other:
  "r' \<noteq> r \<Longrightarrow> BalanceImpl_Rights (balances (upd_balance r f w) r') = BalanceImpl_Rights (balances w r')"
  by (simp add: upd_balance_def)

text \<open>
  Claim C3. For a trader whose base and quote balances are two objects, \<open>OnDeal\<close> of a deal
  with amount \<open>A\<close> and price \<open>P\<close> changes the base rights by \<open>+A\<close> and the quote rights by
  \<open>-A*P\<close> when the direction is buy, and by \<open>-A\<close> and \<open>+A*P\<close> when it is sell (and changes
  neither for any other direction); so base rights times \<open>P\<close> plus quote rights is the
  same before and after.
\<close>

theorem OnDeal_rights:
  assumes "baseBalance t \<noteq> quoteBalance t"
  shows "base_rights t (SpotTrader_OnDeal t deal w) =
           base_rights t w + (case GetDir (DealO deal) of OrderDir_Buy \<Rightarrow> Amount deal
                                | OrderDir_Sell \<Rightarrow> - Amount deal | OrderDir_Other \<Rightarrow> 0)
     \<and> quote_rights t (SpotTrader_OnDeal t deal w) =
           quote_rights t w + (case GetDir (DealO deal) of OrderDir_Buy \<Rightarrow> - (Amount deal * Price deal)
                                | OrderDir_Sell \<Rightarrow> Amount deal * Price deal | OrderDir_Other \<Rightarrow> 0)
     \<and> base_rights t (SpotTrader_OnDeal t deal w) * Price deal + quote_rights t (SpotTrader_OnDeal t deal w)
           = base_rights t w * Price deal + quote_rights t w"
  using assms
  by (cases "GetDir (DealO deal)")
     (simp_all add: base_rights_def quote_rights_def SpotTrader_OnDeal_def Let_def
        Rights_upd_same Rights_upd_other algebra_simps)

theorem OnDeal_rights_witness:
  "baseBalance trader0 \<noteq> quoteBalance trader0
   \<and> base_rights trader0 world0 = 1000000 \<and> quote_rights trader0 world0 = 1000000
   \<and> base_rights trader0 (SpotTrader_OnDeal trader0 buy_deal world0) = 1000002
   \<and> quote_rights trader0 (SpotTrader_OnDeal trader0 buy_deal world0) = 900000"
proof -
  have h: "baseBalance trader0 \<noteq> quoteBalance trader0" by (simp add: fixtures)
  have b: "base_rights trader0 world0 = 1000000" "quote_rights trader0 world0 = 1000000"
    by (simp_all add: fixtures base_rights_def quote_rights_def BalanceImpl_Rights_def)
  have d: "GetDir (DealO buy_deal) = OrderDir_Buy" "Amount buy_deal = 2" "Price buy_deal = 50000"
    by (simp_all add: buy_deal_def GetDir_def new_SpotOrder_def)
  from OnDeal_rights [OF h, of buy_deal world0] h b d show ?thesis by simp
qed

section \<open>The sweep\<close>

lemma sweep_loop_visits:
  "sweep_loop cids m cid = (if cid \<in> set cids then unfinished m cid else m cid)"
proof (induction cids arbitrary: m)
  case Nil
  show ?case by simp
next
  case (Cons a cids)
  show ?case
  proof (cases "m a")
    case None
    then show ?thesis using Cons [of m] by (auto simp: unfinished_def)
  next
    case (Some ord)
    show ?thesis
    proof (cases "Finished ord")
      case True
      have "sweep_loop (a # cids) m cid = sweep_loop cids (m(a := None)) cid"
        using Some True by simp
      also have "\<dots> = (if cid \<in> set cids then unfinished (m(a := None)) cid else (m(a := None)) cid)"
        by (rule Cons)
      also have "\<dots> = (if cid \<in> set (a # cids) then unfinished m cid else m cid)"
        using Some True by (simp add: unfinished_def)
      finally show ?thesis .
    next
      case False
      with Some show ?thesis using Cons [of m] by (auto simp: unfinished_def)
    qed
  qed
qed

lemma unfinished_absent: "cid \<notin> dom m \<Longrightarrow> unfinished m cid = m cid"
  by (auto simp: unfinished_def dom_def)

text \<open>
  Claim C7. One pass of the sweep, which visits every key of the order map, removes exactly
  the finished orders: the trader is unchanged but for its map, and an order is in the map
  afterwards exactly when it was in it before and is not finished.
\<close>

theorem sweep_exact:
  assumes "set cids = dom (orders t)"
  shows "sweep cids t = t\<lparr>orders := unfinished (orders t)\<rparr>
     \<and> (\<forall>cid ord. orders (sweep cids t) cid = Some ord \<longleftrightarrow> orders t cid = Some ord \<and> \<not> Finished ord)"
proof -
  have "sweep_loop cids (orders t) = unfinished (orders t)"
    using assms by (auto simp: sweep_loop_visits unfinished_absent fun_eq_iff)
  then show ?thesis
    by (auto simp: sweep_def unfinished_def split: option.splits if_splits)
qed

theorem sweep_exact_witness:
  "set [''a'', ''b''] = dom (orders two_orders)
   \<and> orders (sweep [''a'', ''b''] two_orders) = [''b'' \<mapsto> new_SpotOrder\<lparr>CltOrderId := ''b''\<rparr>]"
proof -
  have h: "set [''a'', ''b''] = dom (orders two_orders)"
    by (auto simp: two_orders_def)
  have "unfinished (orders two_orders) = [''b'' \<mapsto> new_SpotOrder\<lparr>CltOrderId := ''b''\<rparr>]"
    by (auto simp: two_orders_def unfinished_def new_SpotOrder_def fun_eq_iff)
  with sweep_exact [OF h] h show ?thesis by simp
qed

section \<open>The error lock\<close>

lemma errorlock_MakeOrder:
  "errorlock t \<Longrightarrow> SpotTrader_MakeOrder cid price amount dir makeOnly reduceOnly purpose obs (w, t)
     = (None, w\<lparr>slept := slept w + 1\<rparr>, t)"
  by (simp add: SpotTrader_MakeOrder_def SpotTrader_Ready_def split: prod.splits)

lemma errorlock_onSnapshot:
  "errorlock (snd (SpotOrder_onSnapshot osnap os ord (w, t))) = errorlock t"
  by (simp add: SpotOrder_onSnapshot_def Let_def split: prod.splits)

lemma onOrderSnapshot_Inr:
  "\<exists>s'. onOrderSnapshot osnap os (w, t) = Inr s'
     \<and> errorlock (snd s') = (errorlock t \<or> (StratergyId os > 0 \<and> StratergyId os \<noteq> stratergyId t))"
proof -
  define t1 where
    "t1 = (if StratergyId os > 0 \<and> StratergyId os \<noteq> stratergyId t then t\<lparr>errorlock := True\<rparr> else t)"
  define s' where
    "s' = (case orders t1 (ClientOrderID os) of
             Some ord \<Rightarrow> SpotOrder_onSnapshot osnap os ord (w, t1) | None \<Rightarrow> (w, t1))"
  have "onOrderSnapshot osnap os (w, t) = Inr s'"
    by (simp add: onOrderSnapshot_def LogPanic_def Let_def s'_def t1_def split: option.splits)
  moreover have "errorlock (snd s') = errorlock t1"
    by (simp add: s'_def errorlock_onSnapshot split: option.splits)
  moreover have "errorlock t1 = (errorlock t \<or> (StratergyId os > 0 \<and> StratergyId os \<noteq> stratergyId t))"
    by (auto simp: t1_def)
  ultimately show ?thesis by blast
qed

lemma step_errorlock:
  assumes "errorlock t"
  shows "\<exists>w' t'. step osnap ev (w, t) = Inr (w', t') \<and> errorlock t'"
proof (cases ev)
  case (Ev_Snapshot os)
  then show ?thesis using onOrderSnapshot_Inr [of osnap os w t] assms by auto
next
  case (Ev_MakeOrder cid price amount dir makeOnly reduceOnly purpose obs)
  then show ?thesis using assms by (simp add: errorlock_MakeOrder)
qed (use assms in \<open>simp_all add: sweep_def SpotTrader_Init_def SpotTrader_Uninit_def\<close>)

lemma run_errorlock:
  "errorlock t \<Longrightarrow> \<exists>w' t'. run osnap evs (w, t) = Inr (w', t') \<and> errorlock t'"
proof (induction evs arbitrary: w t)
  case Nil
  then show ?case by simp
next
  case (Cons ev evs)
  from step_errorlock [OF Cons.prems, of osnap ev w]
  obtain w1 t1 where s: "step osnap ev (w, t) = Inr (w1, t1)" and l: "errorlock t1" by blast
  from Cons.IH [OF l, of w1] s show ?case by simp
qed

text \<open>
  Claim C2. A snapshot whose strategy id is positive and is not the trader's own makes the
  callback set the error lock and return normally. From the state it leaves, after every
  sequence of events (snapshots, \<open>MakeOrder\<close> calls, sweeps, deals, \<open>Init\<close>, \<open>Uninit\<close>, and
  arbitrary changes of the market, of the balances and of the connectivity flag) the lock
  is still set, \<open>Ready\<close> is false, and every \<open>MakeOrder\<close> call returns no order and
  registers and submits none.
\<close>

theorem errorlock_permanent:
  assumes "StratergyId os > 0" and "StratergyId os \<noteq> stratergyId t"
  shows "\<exists>w1 t1. onOrderSnapshot osnap os (w, t) = Inr (w1, t1) \<and> errorlock t1 \<and>
     (\<forall>evs. \<exists>w2 t2. run osnap evs (w1, t1) = Inr (w2, t2) \<and> errorlock t2
         \<and> \<not> SpotTrader_Ready w2 t2
         \<and> (\<forall>cid price amount dir makeOnly reduceOnly purpose obs.
              SpotTrader_MakeOrder cid price amount dir makeOnly reduceOnly purpose obs (w2, t2)
                = (None, w2\<lparr>slept := slept w2 + 1\<rparr>, t2)))"
proof -
  from onOrderSnapshot_Inr [of osnap os w t] assms
  obtain w1 t1 where h: "onOrderSnapshot osnap os (w, t) = Inr (w1, t1)" and l: "errorlock t1"
    by auto
  have "\<exists>w2 t2. run osnap evs (w1, t1) = Inr (w2, t2) \<and> errorlock t2
         \<and> \<not> SpotTrader_Ready w2 t2
         \<and> (\<forall>cid price amount dir makeOnly reduceOnly purpose obs.
              SpotTrader_MakeOrder cid price amount dir makeOnly reduceOnly purpose obs (w2, t2)
                = (None, w2\<lparr>slept := slept w2 + 1\<rparr>, t2))" for evs
  proof -
    from run_errorlock [OF l, of osnap evs w1]
    obtain w2 t2 where r: "run osnap evs (w1, t1) = Inr (w2, t2)" and l2: "errorlock t2" by blast
    have "\<not> SpotTrader_Ready w2 t2" using l2 by (simp add: SpotTrader_Ready_def split: prod.splits)
    with r l2 show ?thesis by (simp add: errorlock_MakeOrder)
  qed
  with h l show ?thesis by blast
qed

theorem errorlock_permanent_witness:
  "0 < StratergyId foreign_os \<and> StratergyId foreign_os \<noteq> stratergyId trader0
   \<and> SpotTrader_Ready world0 trader0
   \<and> (\<exists>w1 t1. onOrderSnapshot fill_once foreign_os (world0, trader0) = Inr (w1, t1) \<and> errorlock t1 \<and>
       (\<forall>evs. \<exists>w2 t2. run fill_once evs (w1, t1) = Inr (w2, t2) \<and> errorlock t2
           \<and> \<not> SpotTrader_Ready w2 t2
           \<and> (\<forall>cid price amount dir makeOnly reduceOnly purpose obs.
                SpotTrader_MakeOrder cid price amount dir makeOnly reduceOnly purpose obs (w2, t2)
                  = (None, w2\<lparr>slept := slept w2 + 1\<rparr>, t2))))"
proof -
  have h: "0 < StratergyId foreign_os" "StratergyId foreign_os \<noteq> stratergyId trader0"
    by (simp_all add: foreign_os_def fixtures)
  have r: "SpotTrader_Ready world0 trader0"
    by (simp add: fixtures SpotTrader_Ready_def SpotMarket_Ready_def BalanceImpl_Ready_def)
  from errorlock_permanent [OF h, of fill_once world0] h r show ?thesis by blast
qed

end
